theory Spec2Isabelle
  imports Complex_Main
begin

section \<open>Waypoint densification: the embedding\<close>

text \<open>
  The two scripts \<^verbatim>\<open>generate_coordinates.py\<close> (Berlin to Munich) and
  \<^verbatim>\<open>generate_wronki_gniezno_route.py\<close> (Wronki to Gniezno) share
  \<^verbatim>\<open>haversine_distance\<close> and \<^verbatim>\<open>interpolate_points\<close> word for word and differ in
  \<^verbatim>\<open>generate_route_coordinates\<close>: the waypoint literals, the spacing constant (50 and 10
  metres) and the gap-filling loop with the final slice, which only the first script has.

  Python floats are read as exact reals: \<^verbatim>\<open>math.sin\<close>, \<^verbatim>\<open>math.cos\<close>, \<^verbatim>\<open>math.sqrt\<close> and
  \<^verbatim>\<open>math.asin\<close> are the real functions, \<^verbatim>\<open>math.radians\<close> multiplies by \<open>pi / 180\<close>.
  Rounding, overflow and underflow of IEEE doubles are outside this model.
  The hard-coded waypoint list and the literals 50 (or 10), 1000 and 80 are parameters of the
  embedded functions; the two closed programs are recovered at the end of this section.
\<close>

type_synonym coord = "real \<times> real"

datatype error = IndexError | ZeroDivisionError | ValueError

subsection \<open>haversine_distance\<close>

definition radians :: "real \<Rightarrow> real" where
  "radians x = x * pi / 180"

text \<open>The term \<^verbatim>\<open>a\<close> of line 24.\<close>

definition haversine_a :: "coord \<Rightarrow> coord \<Rightarrow> real" where
  "haversine_a coord1 coord2 =
     (let lat1 = radians (fst coord1); lon1 = radians (snd coord1);
          lat2 = radians (fst coord2); lon2 = radians (snd coord2);
          dlat = lat2 - lat1;
          dlon = lon2 - lon1
      in (sin (dlat / 2))\<^sup>2 + cos lat1 * cos lat2 * (sin (dlon / 2))\<^sup>2)"

text \<open>
  \<^verbatim>\<open>math.sqrt\<close> raises ValueError on a negative argument and \<^verbatim>\<open>math.asin\<close> raises
  ValueError outside \<open>[-1, 1]\<close>; the source applies both to \<^verbatim>\<open>a\<close> as computed, with
  no clamp in between.
\<close>

definition haversine_distance :: "coord \<Rightarrow> coord \<Rightarrow> error + real" where
  "haversine_distance coord1 coord2 =
     (let R = 6371000;
          a = haversine_a coord1 coord2
      in if a < 0 then Inl ValueError
         else if 1 < sqrt a then Inl ValueError
         else Inr (R * (2 * arcsin (sqrt a))))"

subsection \<open>interpolate_points\<close>

text \<open>
  \<^verbatim>\<open>range(num_points + 1)\<close> is empty for a negative \<^verbatim>\<open>num_points\<close>; for
  \<^verbatim>\<open>num_points = 0\<close> the first iteration divides \<^verbatim>\<open>0 / 0\<close>.
  Over the reals the point of ratio 1 is \<open>endp\<close> itself; in doubles
  \<^verbatim>\<open>start + (end - start) * 1.0\<close> may differ from \<^verbatim>\<open>end\<close> in the last bit.
\<close>

definition interpolate_points :: "coord \<Rightarrow> coord \<Rightarrow> int \<Rightarrow> error + coord list" where
  "interpolate_points start endp num_points =
     (if num_points < 0 then Inr []
      else if num_points = 0 then Inl ZeroDivisionError
      else Inr (map (\<lambda>i. let ratio = real_of_int i / real_of_int num_points
                          in (fst start + (fst endp - fst start) * ratio,
                              snd start + (snd endp - snd start) * ratio))
                    [0..num_points]))"

subsection \<open>generate_route_coordinates: the interpolation loop\<close>

text \<open>Python's \<^verbatim>\<open>int\<close> on a float truncates towards zero.\<close>

definition py_int :: "real \<Rightarrow> int" where
  "py_int x = (if 0 \<le> x then \<lfloor>x\<rfloor> else \<lceil>x\<rceil>)"

text \<open>\<^verbatim>\<open>max(1, int(distance / 50))\<close>, the divisor being the spacing parameter.\<close>

definition num_intermediate :: "real \<Rightarrow> real \<Rightarrow> error + int" where
  "num_intermediate distance min_spacing =
     (if min_spacing = 0 then Inl ZeroDivisionError
      else Inr (max 1 (py_int (distance / min_spacing))))"

text \<open>
  Lines 74 to 81, the body of the loop up to \<^verbatim>\<open>segment_points\<close>: the distance of the
  segment, the number of steps, the interpolation. The specification calls this
  interpolateSegment.
\<close>

definition interpolate_segment :: "coord \<Rightarrow> coord \<Rightarrow> real \<Rightarrow> error + coord list" where
  "interpolate_segment start endp min_spacing =
     (case haversine_distance start endp of
        Inl e \<Rightarrow> Inl e
      | Inr distance \<Rightarrow>
         (case num_intermediate distance min_spacing of
            Inl e \<Rightarrow> Inl e
          | Inr num \<Rightarrow> interpolate_points start endp num))"

text \<open>
  The loop over \<^verbatim>\<open>range(len(waypoints) - 1)\<close>: one segment per adjacent pair of
  waypoints. \<^verbatim>\<open>i < len(waypoints) - 2\<close> holds exactly when another waypoint follows
  \<^verbatim>\<open>end\<close>, and then \<^verbatim>\<open>segment_points[:-1]\<close> is appended.
\<close>

fun all_points :: "coord list \<Rightarrow> real \<Rightarrow> error + coord list" where
  "all_points (start # endp # rest) min_spacing =
     (case interpolate_segment start endp min_spacing of
        Inl e \<Rightarrow> Inl e
      | Inr segment_points \<Rightarrow>
         (case all_points (endp # rest) min_spacing of
            Inl e \<Rightarrow> Inl e
          | Inr more \<Rightarrow>
              Inr ((if rest \<noteq> [] then butlast segment_points else segment_points) @ more)))"
| "all_points ws min_spacing = Inr []"

subsection \<open>generate_route_coordinates: the spacing filter\<close>

text \<open>
  The loop over \<^verbatim>\<open>all_points[1:]\<close> with its accumulator \<^verbatim>\<open>filtered_points\<close>;
  \<^verbatim>\<open>filtered_points[-1]\<close> raises IndexError on an empty list.
\<close>

fun filter_loop :: "coord list \<Rightarrow> coord list \<Rightarrow> real \<Rightarrow> error + coord list" where
  "filter_loop filtered_points [] min_spacing = Inr filtered_points"
| "filter_loop filtered_points (point # ps) min_spacing =
     (if filtered_points = [] then Inl IndexError
      else case haversine_distance (last filtered_points) point of
             Inl e \<Rightarrow> Inl e
           | Inr d \<Rightarrow>
               filter_loop (if min_spacing \<le> d then filtered_points @ [point]
                            else filtered_points) ps min_spacing)"

text \<open>\<^verbatim>\<open>filtered_points = [all_points[0]]\<close> raises IndexError when nothing was accumulated.\<close>

definition spacing_filter :: "coord list \<Rightarrow> real \<Rightarrow> error + coord list" where
  "spacing_filter pts min_spacing =
     (case pts of
        [] \<Rightarrow> Inl IndexError
      | p # ps \<Rightarrow> filter_loop [p] ps min_spacing)"

text \<open>Interpolation followed by the filter: the part both scripts have.\<close>

definition densify :: "coord list \<Rightarrow> real \<Rightarrow> error + coord list" where
  "densify waypoints min_spacing =
     (case all_points waypoints min_spacing of
        Inl e \<Rightarrow> Inl e
      | Inr pts \<Rightarrow> spacing_filter pts min_spacing)"

subsection \<open>generate_route_coordinates: the gap-filling loop\<close>

definition midpoint :: "coord \<Rightarrow> coord \<Rightarrow> coord" where
  "midpoint p q = ((fst p + fst q) / 2, (snd p + snd q) / 2)"

text \<open>The inner \<^verbatim>\<open>for i in range(len(filtered_points) - 1)\<close> loop building \<^verbatim>\<open>new_points\<close>.\<close>

fun midpoint_loop :: "coord list \<Rightarrow> real \<Rightarrow> error + coord list" where
  "midpoint_loop (p # q # rest) gap =
     (case haversine_distance p q of
        Inl e \<Rightarrow> Inl e
      | Inr d \<Rightarrow>
         (case midpoint_loop (q # rest) gap of
            Inl e \<Rightarrow> Inl e
          | Inr more \<Rightarrow> Inr (p # (if gap < d then [midpoint p q] else []) @ more)))"
| "midpoint_loop ps gap = Inr []"

text \<open>One pass: the inner loop, then \<^verbatim>\<open>new_points.append(filtered_points[-1])\<close>.\<close>

definition gap_fill_pass :: "coord list \<Rightarrow> real \<Rightarrow> error + coord list" where
  "gap_fill_pass filtered_points gap =
     (case midpoint_loop filtered_points gap of
        Inl e \<Rightarrow> Inl e
      | Inr new_points \<Rightarrow>
          if filtered_points = [] then Inl IndexError
          else Inr (new_points @ [last filtered_points]))"

text \<open>
  \<^verbatim>\<open>while len(filtered_points) < 1000\<close>: the loop has no other exit than the count
  reaching the target, so it is a partial function; \<open>None\<close> is the loop running forever.
\<close>

partial_function (option) densify_loop ::
  "coord list \<Rightarrow> nat \<Rightarrow> real \<Rightarrow> (error + coord list) option" where
  "densify_loop filtered_points target gap =
     (if length filtered_points < target then
        (case gap_fill_pass filtered_points gap of
           Inl e \<Rightarrow> Some (Inl e)
         | Inr new_points \<Rightarrow>
             if target \<le> length new_points then Some (Inr new_points)
             else densify_loop new_points target gap)
      else Some (Inr filtered_points))"

subsection \<open>generate_route_coordinates: the two scripts\<close>

text \<open>
  \<^verbatim>\<open>generate_coordinates.py\<close>: interpolation, filter, gap-filling loop,
  \<^verbatim>\<open>filtered_points[:1000]\<close>.
\<close>

definition generate_route_coordinates ::
  "coord list \<Rightarrow> real \<Rightarrow> nat \<Rightarrow> real \<Rightarrow> (error + coord list) option" where
  "generate_route_coordinates waypoints min_spacing target gap =
     (case densify waypoints min_spacing of
        Inl e \<Rightarrow> Some (Inl e)
      | Inr filtered_points \<Rightarrow>
         (case densify_loop filtered_points target gap of
            None \<Rightarrow> None
          | Some (Inl e) \<Rightarrow> Some (Inl e)
          | Some (Inr r) \<Rightarrow> Some (Inr (take target r))))"

text \<open>\<^verbatim>\<open>generate_wronki_gniezno_route.py\<close>: interpolation and filter only.\<close>

definition generate_route_coordinates_wg :: "coord list \<Rightarrow> real \<Rightarrow> error + coord list" where
  "generate_route_coordinates_wg waypoints min_spacing = densify waypoints min_spacing"

definition waypoints_a9 :: "coord list" where
  "waypoints_a9 =
     [(52.5200, 13.4050), (52.4500, 13.3500), (52.3000, 13.1000), (52.1000, 12.8000),
      (51.8397, 12.2431), (51.4800, 11.9700), (51.2000, 11.6000), (50.9849, 11.3239),
      (50.7000, 11.0000), (50.4000, 10.7000), (49.9000, 10.5000), (49.9479, 11.5683),
      (49.7000, 11.4000), (49.4500, 11.0780), (49.4521, 11.0767), (49.2000, 10.9000),
      (48.8000, 10.8000), (48.7665, 11.4257), (48.5000, 11.5000), (48.3000, 11.6000),
      (48.1351, 11.5820)]"

definition waypoints_wronki_gniezno :: "coord list" where
  "waypoints_wronki_gniezno =
     [(52.7065, 16.3894), (52.7089, 16.4156), (52.7124, 16.4523), (52.7156, 16.4891),
      (52.7189, 16.5267), (52.7223, 16.5634), (52.7145, 16.6123), (52.7089, 16.6587),
      (52.7034, 16.7045), (52.6978, 16.7489), (52.6923, 16.7923), (52.6867, 16.8345),
      (52.6812, 16.8756), (52.6756, 16.9156), (52.6701, 16.9545), (52.6645, 16.9923),
      (52.6589, 17.0289), (52.6534, 17.0644), (52.6478, 17.0987), (52.6423, 17.1319),
      (52.6367, 17.1640), (52.6312, 17.1950), (52.6256, 17.2248), (52.6201, 17.2535),
      (52.6145, 17.2811), (52.6089, 17.3076), (52.6034, 17.3330), (52.5978, 17.3572),
      (52.5923, 17.3803), (52.5345, 17.5928)]"

definition berlin_munich_route :: "(error + coord list) option" where
  "berlin_munich_route = generate_route_coordinates waypoints_a9 50 1000 80"

definition wronki_gniezno_route :: "error + coord list" where
  "wronki_gniezno_route = generate_route_coordinates_wg waypoints_wronki_gniezno 10"

subsection \<open>Notions used in the statements\<close>

text \<open>The value \<^verbatim>\<open>R * c\<close> that \<^const>\<open>haversine_distance\<close> returns when it returns.\<close>

definition hav :: "coord \<Rightarrow> coord \<Rightarrow> real" where
  "hav c1 c2 = 6371000 * (2 * arcsin (sqrt (haversine_a c1 c2)))"


text \<open>The track after \<open>k\<close> passes of the gap-filling loop.\<close>

fun passes :: "nat \<Rightarrow> coord list \<Rightarrow> real \<Rightarrow> error + coord list" where
  "passes 0 fp gap = Inr fp"
| "passes (Suc k) fp gap =
     (case gap_fill_pass fp gap of
        Inl e \<Rightarrow> Inl e
      | Inr new_points \<Rightarrow> passes k new_points gap)"

section \<open>The distance model\<close>

lemma sin_half_sq: "(sin (x / 2))\<^sup>2 = (1 - cos x) / (2::real)"
  using cos_double_sin [of "x / 2"] by simp

lemma prod_le_half_squares: "\<bar>x * y\<bar> \<le> (x\<^sup>2 + y\<^sup>2) / (2::real)"
proof -
  have "0 \<le> (\<bar>x\<bar> - \<bar>y\<bar>)\<^sup>2" by simp
  then have "2 * (\<bar>x\<bar> * \<bar>y\<bar>) \<le> x\<^sup>2 + y\<^sup>2"
    by (simp add: power2_diff)
  then show ?thesis by (simp add: abs_mult)
qed

lemma central_cos_bound:
  "\<bar>sin p * sin q + cos p * cos q * cos l\<bar> \<le> (1::real)"
proof -
  have a: "\<bar>sin p * sin q\<bar> \<le> ((sin p)\<^sup>2 + (sin q)\<^sup>2) / 2"
    by (rule prod_le_half_squares)
  have "\<bar>cos p * cos q * cos l\<bar> = \<bar>cos p * cos q\<bar> * \<bar>cos l\<bar>"
    by (simp add: abs_mult)
  also have "\<dots> \<le> \<bar>cos p * cos q\<bar> * 1"
    by (rule mult_left_mono) simp_all
  finally have b: "\<bar>cos p * cos q * cos l\<bar> \<le> ((cos p)\<^sup>2 + (cos q)\<^sup>2) / 2"
    using prod_le_half_squares [of "cos p" "cos q"] by simp
  have "\<bar>sin p * sin q + cos p * cos q * cos l\<bar>
          \<le> \<bar>sin p * sin q\<bar> + \<bar>cos p * cos q * cos l\<bar>"
    by (rule abs_triangle_ineq)
  also have "\<dots> \<le> ((sin p)\<^sup>2 + (sin q)\<^sup>2) / 2 + ((cos p)\<^sup>2 + (cos q)\<^sup>2) / 2"
    by (rule add_mono [OF a b])
  also have "\<dots> = 1"
    using sin_cos_squared_add [of p] sin_cos_squared_add [of q] by argo
  finally show ?thesis .
qed

lemma haversine_a_central:
  "haversine_a c1 c2 =
     (1 - (sin (radians (fst c1)) * sin (radians (fst c2))
           + cos (radians (fst c1)) * cos (radians (fst c2))
             * cos (radians (snd c2) - radians (snd c1)))) / 2"
proof -
  define p q l where "p = radians (fst c1)" and "q = radians (fst c2)"
    and "l = radians (snd c2) - radians (snd c1)"
  have "haversine_a c1 c2 = (1 - cos (q - p)) / 2 + cos p * cos q * ((1 - cos l) / 2)"
    by (simp add: haversine_a_def Let_def sin_half_sq p_def q_def l_def)
  also have "\<dots> = (1 - (sin p * sin q + cos p * cos q * cos l)) / 2"
    by (simp add: cos_diff field_simps)
  finally show ?thesis by (simp add: p_def q_def l_def)
qed

lemma haversine_a_ge0: "0 \<le> haversine_a c1 c2"
  using central_cos_bound [of "radians (fst c1)" "radians (fst c2)" "radians (snd c2) - radians (snd c1)"]
  unfolding haversine_a_central by simp

lemma haversine_a_le1: "haversine_a c1 c2 \<le> 1"
  using central_cos_bound [of "radians (fst c1)" "radians (fst c2)" "radians (snd c2) - radians (snd c1)"]
  unfolding haversine_a_central by simp

lemma haversine_distance_total: "haversine_distance c1 c2 = Inr (hav c1 c2)"
  using haversine_a_ge0 [of c1 c2] haversine_a_le1 [of c1 c2]
  by (simp add: haversine_distance_def hav_def Let_def real_sqrt_le_1_iff not_less)

lemma hav_nonneg: "0 \<le> hav c1 c2"
proof -
  have "0 \<le> arcsin (sqrt (haversine_a c1 c2))"
    using haversine_a_ge0 [of c1 c2] haversine_a_le1 [of c1 c2]
    by (intro arcsin_nonneg) (simp add: real_sqrt_le_1_iff)
  then show ?thesis by (simp add: hav_def)
qed

lemma hav_sym: "hav c1 c2 = hav c2 c1"
proof -
  have "haversine_a c1 c2 = haversine_a c2 c1"
    unfolding haversine_a_central by (simp add: cos_diff algebra_simps)
  then show ?thesis by (simp add: hav_def)
qed

lemma arcsin_abs_sin:
  assumes "\<bar>h\<bar> \<le> pi / 2"
  shows "arcsin \<bar>sin h\<bar> = \<bar>h\<bar>"
proof -
  have "\<bar>sin h\<bar> = sin \<bar>h\<bar>"
  proof (cases "0 \<le> h")
    case True
    then have "0 \<le> sin h" using assms pi_ge_zero by (intro sin_ge_zero) linarith+
    with True show ?thesis by simp
  next
    case False
    then have "0 \<le> sin (- h)" using assms pi_ge_zero by (intro sin_ge_zero) linarith+
    then have "sin h \<le> 0" by simp
    with False show ?thesis by simp
  qed
  moreover have "- (pi / 2) \<le> \<bar>h\<bar>" using pi_ge_zero by linarith
  ultimately show ?thesis using assms by (simp add: arcsin_sin)
qed

lemma hav_equator:
  assumes "\<bar>y - x\<bar> \<le> 180"
  shows "hav (0, x) (0, y) = 6371000 * \<bar>y - x\<bar> * pi / 180"
proof -
  define h where "h = (radians y - radians x) / 2"
  have "h = (y - x) * pi / 360" by (simp add: h_def radians_def field_simps)
  moreover have "\<bar>(y - x) * pi / 360\<bar> = \<bar>y - x\<bar> * pi / 360" by (simp add: abs_mult)
  ultimately have habs: "\<bar>h\<bar> = \<bar>y - x\<bar> * pi / 360" by (simp only:)
  have bound: "\<bar>h\<bar> \<le> pi / 2"
  proof -
    have "\<bar>y - x\<bar> * pi \<le> 180 * pi"
      using assms by (rule mult_right_mono) simp
    then show ?thesis unfolding habs by simp
  qed
  have a: "haversine_a (0, x) (0, y) = (sin h)\<^sup>2"
    by (simp add: haversine_a_def radians_def h_def)
  have "hav (0, x) (0, y) = 6371000 * (2 * \<bar>h\<bar>)"
    by (simp add: hav_def a arcsin_abs_sin [OF bound])
  also have "\<dots> = 6371000 * \<bar>y - x\<bar> * pi / 180"
    unfolding habs by simp
  finally show ?thesis .
qed

text \<open>Bounds on \<open>pi\<close>, for the concrete distances below.\<close>

lemma pi_ge_3: "3 \<le> pi"
  using sin_x_le_x [of "pi / 6"] by (simp add: sin_30)

lemma sum_lessThan_5: "(\<Sum>m<5. f m) = f 0 + f 1 + f 2 + f 3 + f (4::nat)" for f :: "nat \<Rightarrow> real"
  by (simp add: eval_nat_numeral)

lemma sin_coeff_values: "sin_coeff 0 = 0" "sin_coeff 1 = 1" "sin_coeff 2 = 0" "sin_coeff 3 = - 1 / 6" "sin_coeff 4 = 0"
  by (simp_all add: sin_coeff_def fact_numeral)

lemma sin_lower: "x - x ^ 3 / 6 - \<bar>x\<bar> ^ 5 / 120 \<le> sin (x::real)"
proof -
  have "(\<Sum>m<5. sin_coeff m * x ^ m) = x - x ^ 3 / 6"
    unfolding sum_lessThan_5 sin_coeff_values by simp
  moreover have "(fact 5 :: real) = 120" by (simp add: fact_numeral)
  ultimately have "\<bar>sin x - (x - x ^ 3 / 6)\<bar> \<le> inverse 120 * \<bar>x\<bar> ^ 5"
    using Maclaurin_sin_bound [of x 5] by (simp only:)
  then have "\<bar>sin x - (x - x ^ 3 / 6)\<bar> \<le> \<bar>x\<bar> ^ 5 / 120"
    by (simp add: field_simps)
  then show ?thesis by linarith
qed

lemma pi_less_33: "pi < 33 / 10"
proof (rule ccontr)
  assume "\<not> pi < 33 / 10"
  define x where "x = pi / 6"
  have lo: "11 / 20 \<le> x" using \<open>\<not> pi < 33 / 10\<close> by (simp add: x_def)
  have hi: "x \<le> 2 / 3" using pi_less_4 by (simp add: x_def)
  have x0: "0 \<le> x" using lo by linarith
  have x2: "x ^ 2 \<le> 4 / 9"
    using power_mono [of x "2/3" 2] hi x0 by (simp add: power_divide)
  have x4: "x ^ 4 \<le> 16 / 81"
    using power_mono [of x "2/3" 4] hi x0 by (simp add: power_divide)
  have e: "x - x ^ 3 / 6 - \<bar>x\<bar> ^ 5 / 120 = x * (1 - x ^ 2 / 6 - x ^ 4 / 120)"
    using x0 by (simp add: power_numeral_reduce algebra_simps)
  have "1 - 4 / 9 / 6 - 16 / 81 / 120 \<le> 1 - x ^ 2 / 6 - x ^ 4 / 120"
    using x2 x4 by linarith
  then have a: "x * (1 - 4 / 9 / 6 - 16 / 81 / 120) \<le> x * (1 - x ^ 2 / 6 - x ^ 4 / 120)"
    using x0 by (rule mult_left_mono)
  have b: "(11 / 20) * (1 - 4 / 9 / 6 - 16 / 81 / 120) \<le> x * (1 - 4 / 9 / 6 - 16 / 81 / 120 :: real)"
    using lo by (rule mult_right_mono) simp
  have c: "(1 / 2 :: real) < (11 / 20) * (1 - 4 / 9 / 6 - 16 / 81 / 120)" by simp
  have "1 / 2 < x - x ^ 3 / 6 - \<bar>x\<bar> ^ 5 / 120"
    unfolding e using a b c by linarith
  then have "1 / 2 < sin x" using sin_lower [of x] by linarith
  then show False by (simp add: x_def sin_30)
qed

lemma hav_refl: "hav c c = 0"
  by (simp add: hav_def haversine_a_def)

section \<open>Interpolation\<close>

lemma py_int_unique:
  "0 \<le> x \<Longrightarrow> of_int k \<le> x \<Longrightarrow> x < of_int k + 1 \<Longrightarrow> py_int x = k"
  by (simp add: py_int_def floor_unique)










lemma all_points_short: "length ws < 2 \<Longrightarrow> all_points ws S = Inr []"
  by (induction ws S rule: all_points.induct) simp_all



lemma interpolate_points_2:
  "interpolate_points s e 2 =
     Inr [s, (fst s + (fst e - fst s) * (1 / 2), snd s + (snd e - snd s) * (1 / 2)), e]"
proof -
  have "[0..2::int] = [0, 1, 2]" by (simp add: upto.simps)
  then show ?thesis
    by (simp add: interpolate_points_def prod_eq_iff diff_divide_distrib)
qed

lemma interpolate_segment_steps:
  assumes "0 < S" "of_int k * S \<le> hav s e" "hav s e < (of_int k + 1) * S"
  shows "interpolate_segment s e S = interpolate_points s e (max 1 k)"
proof -
  have "0 \<le> hav s e / S" using assms(1) hav_nonneg [of s e] by simp
  moreover have "of_int k \<le> hav s e / S" using assms by (simp add: pos_le_divide_eq)
  moreover have "hav s e / S < of_int k + 1" using assms by (simp add: pos_divide_less_eq)
  ultimately have "py_int (hav s e / S) = k" by (rule py_int_unique)
  then show ?thesis using assms(1)
    by (simp add: interpolate_segment_def haversine_distance_total num_intermediate_def)
qed

section \<open>The spacing filter\<close>











section \<open>The gap-filling loop\<close>

lemma midpoint_loop_ok:
  "\<exists>r. midpoint_loop fp gap = Inr r \<and> length fp - 1 \<le> length r
       \<and> (2 \<le> length fp \<longrightarrow> hd r = hd fp)"
proof (induction fp gap rule: midpoint_loop.induct)
  case (1 p q rest gap)
  from "1.IH" [OF haversine_distance_total]
  obtain more where more: "midpoint_loop (q # rest) gap = Inr more"
      "length (q # rest) - 1 \<le> length more"
    by auto
  then show ?case by (simp add: haversine_distance_total)
qed simp_all

lemma gap_fill_pass_ok:
  assumes "fp \<noteq> []"
  shows "\<exists>new. gap_fill_pass fp gap = Inr new \<and> length fp \<le> length new
           \<and> hd new = hd fp \<and> last new = last fp \<and> new \<noteq> []"
proof -
  obtain r where r: "midpoint_loop fp gap = Inr r" "length fp - 1 \<le> length r"
      "2 \<le> length fp \<longrightarrow> hd r = hd fp"
    using midpoint_loop_ok by blast
  have eq: "gap_fill_pass fp gap = Inr (r @ [last fp])"
    using assms r(1) by (simp add: gap_fill_pass_def)
  have "hd (r @ [last fp]) = hd fp"
  proof (cases "2 \<le> length fp")
    case True
    then have "r \<noteq> []" using r(2) by auto
    then show ?thesis using r(3) True by simp
  next
    case False
    then obtain x where "fp = [x]" using assms by (cases fp) (auto simp: Suc_le_eq)
    then show ?thesis using r(1) by auto
  qed
  moreover have "length fp \<le> length (r @ [last fp])" using r(2) by simp
  ultimately show ?thesis unfolding eq by simp
qed


lemma densify_loop_done:
  "target \<le> length fp \<Longrightarrow> densify_loop fp target gap = Some (Inr fp)"
  by (subst densify_loop.simps) simp

lemma densify_loop_step:
  "length fp < target \<Longrightarrow> gap_fill_pass fp gap = Inr new \<Longrightarrow>
     densify_loop fp target gap =
       (if target \<le> length new then Some (Inr new) else densify_loop new target gap)"
  by (subst densify_loop.simps) simp


lemma densify_loop_returns:
  "fp \<noteq> [] \<Longrightarrow> passes k fp gap = Inr t \<Longrightarrow> target \<le> length t \<Longrightarrow>
     \<exists>r. densify_loop fp target gap = Some (Inr r)"
proof (induction k arbitrary: fp)
  case 0
  then show ?case by (simp add: densify_loop_done)
next
  case (Suc k)
  show ?case
  proof (cases "target \<le> length fp")
    case True
    then show ?thesis by (simp add: densify_loop_done)
  next
    case False
    obtain new where new: "gap_fill_pass fp gap = Inr new" "new \<noteq> []"
      using gap_fill_pass_ok [OF Suc.prems(1)] by blast
    have step: "densify_loop fp target gap =
        (if target \<le> length new then Some (Inr new) else densify_loop new target gap)"
      using False new(1) by (intro densify_loop_step) simp_all
    have "passes k new gap = Inr t" using Suc.prems(2) new(1) by simp
    from Suc.IH [OF new(2) this Suc.prems(3)] show ?thesis
      unfolding step by simp
  qed
qed







section \<open>Tracks along the equator\<close>

text \<open>
  Between two points of latitude 0 whose longitudes differ by at most 180 degrees the distance is
  \<open>R\<close> times the difference in radians; the bounds on \<open>pi\<close> turn it into numbers.
\<close>

lemma hav_equator_bounds:
  assumes "\<bar>y - x\<bar> \<le> 180"
  shows "106183 * \<bar>y - x\<bar> \<le> hav (0, x) (0, y)" "hav (0, x) (0, y) \<le> 116802 * \<bar>y - x\<bar>"
proof -
  have eq: "hav (0, x) (0, y) = (6371000 * \<bar>y - x\<bar> / 180) * pi"
    using hav_equator [OF assms] by simp
  have c: "0 \<le> 6371000 * \<bar>y - x\<bar> / 180" by simp
  have "(6371000 * \<bar>y - x\<bar> / 180) * 3 \<le> (6371000 * \<bar>y - x\<bar> / 180) * pi"
    using c pi_ge_3 by (rule mult_left_mono [rotated])
  moreover have "106183 * \<bar>y - x\<bar> \<le> (6371000 * \<bar>y - x\<bar> / 180) * 3" by simp
  ultimately show "106183 * \<bar>y - x\<bar> \<le> hav (0, x) (0, y)" unfolding eq by linarith
  have "(6371000 * \<bar>y - x\<bar> / 180) * pi \<le> (6371000 * \<bar>y - x\<bar> / 180) * (33 / 10)"
    using c pi_less_33 by (intro mult_left_mono) simp_all
  moreover have "(6371000 * \<bar>y - x\<bar> / 180) * (33 / 10) \<le> 116802 * \<bar>y - x\<bar>" by simp
  ultimately show "hav (0, x) (0, y) \<le> 116802 * \<bar>y - x\<bar>" unfolding eq by linarith
qed


lemma hav_e2: "100 \<le> hav (0, 0) (0, 1 / 1000)" "hav (0, 0) (0, 1 / 1000) < 150"
  using hav_equator_bounds [of "1 / 1000" 0] by simp_all

lemma hav_e2a: "50 \<le> hav (0, 0) (0, 1 / 2000)" "50 \<le> hav (0, 1 / 2000) (0, 1 / 1000)"
  using hav_equator_bounds(1) [of "1 / 2000" 0] hav_equator_bounds(1) [of "1 / 1000" "1 / 2000"]
  by simp_all





lemma interpolate_segment_e2:
  "interpolate_segment (0, 0) (0, 1 / 1000) 50 = Inr [(0, 0), (0, 1 / 2000), (0, 1 / 1000)]"
  using interpolate_segment_steps [of 50 2 "(0, 0)" "(0, 1 / 1000)"] hav_e2
  by (simp add: interpolate_points_2)

lemma densify_e2:
  "densify [(0, 0), (0, 1 / 1000)] 50 = Inr [(0, 0), (0, 1 / 2000), (0, 1 / 1000)]"
  using hav_e2a
  by (simp add: densify_def spacing_filter_def interpolate_segment_e2 haversine_distance_total)










section \<open>The claims\<close>

subsection \<open>C1\<close>




subsection \<open>C2\<close>




subsection \<open>C4\<close>

text \<open>
  Claim C4, degenerate input, as the code has it. With fewer than two waypoints no segment is
  interpolated, \<^verbatim>\<open>all_points\<close> stays empty and \<^verbatim>\<open>all_points[0]\<close> raises IndexError, in
  both scripts: neither the single coordinate nor an empty sequence is returned.
\<close>

theorem degenerate_input_raises:
  assumes "length ws < 2"
  shows "generate_route_coordinates_wg ws S = Inl IndexError
       \<and> generate_route_coordinates ws S target gap = Some (Inl IndexError)"
  using all_points_short [OF assms]
  by (simp add: generate_route_coordinates_wg_def generate_route_coordinates_def densify_def
      spacing_filter_def)

theorem degenerate_input_raises_witness:
  "generate_route_coordinates_wg [(0, 0)] 50 = Inl IndexError
   \<and> generate_route_coordinates [(0, 0)] 50 1000 80 = Some (Inl IndexError)"
  using degenerate_input_raises [of "[(0, 0)]" 50 1000 80] by simp

text \<open>The claimed results are not what the code returns on one waypoint and on none.\<close>

theorem degenerate_input_counterexample:
  "generate_route_coordinates_wg [(0, 0)] 50 \<noteq> Inr [(0, 0)]
   \<and> generate_route_coordinates_wg [] 50 \<noteq> Inr []"
  by (simp add: generate_route_coordinates_wg_def densify_def spacing_filter_def)

subsection \<open>C5\<close>




subsection \<open>C6\<close>



subsection \<open>C8\<close>



subsection \<open>C9\<close>

text \<open>
  Claim C9: when the gap-filling loop ends with more than \<open>target\<close> points, the Berlin script
  returns the first \<open>target\<close> points of the loop's track, hence exactly \<open>target\<close> points.
\<close>

theorem overshoot_keeps_prefix:
  assumes "densify ws S = Inr fp" "densify_loop fp target gap = Some (Inr r)"
    "target < length r"
  shows "generate_route_coordinates ws S target gap = Some (Inr (take target r))
       \<and> length (take target r) = target"
  using assms by (simp add: generate_route_coordinates_def)

text \<open>
  Three filtered points and target count 2: the result is the first two, and the last waypoint
  is gone.
\<close>

theorem overshoot_keeps_prefix_witness:
  "generate_route_coordinates [(0, 0), (0, 1 / 1000)] 50 2 80 = Some (Inr [(0, 0), (0, 1 / 2000)])
   \<and> length [(0::real, 0::real), (0, 1 / 2000)] = 2
   \<and> last [(0::real, 0::real), (0, 1 / 2000)] \<noteq> last [(0, 0), (0, 1 / 1000)]"
proof -
  have "densify_loop [(0, 0), (0, 1 / 2000), (0, 1 / 1000)] 2 80 =
      Some (Inr [(0, 0), (0, 1 / 2000), (0, 1 / 1000)])"
    by (rule densify_loop_done) simp
  from overshoot_keeps_prefix [OF densify_e2 this] show ?thesis by simp
qed

subsection \<open>C10\<close>



end
